theory Spec2Isabelle
  imports
    Main
    "HOL-Library.Multiset"
    "HOL-Library.Char_ord"
    "HOL-Library.List_Lexorder"
    "HOL-Library.Product_Lexorder"
begin

section \<open>The task table\<close>

text \<open>
  \<^verbatim>\<open>SIMPLE_TASK_LIST.py\<close> keeps its tasks in a pandas DataFrame, persists it with
  \<^verbatim>\<open>to_csv\<close>/\<^verbatim>\<open>read_csv\<close> and trains a scikit-learn pipeline on it. The class
  \<^verbatim>\<open>TaskManager\<close> is embedded function by function; the library calls it makes are
  embedded as far as the program depends on them, each with a note on what it stands for.

  A cell holds a Python string, the missing value \<^verbatim>\<open>nan\<close>, or a number. Strings are
  byte strings (UTF-8): equality is exact and the order is lexicographic by character
  code, as Python's \<^verbatim>\<open>==\<close> and \<^verbatim>\<open><\<close> on \<^verbatim>\<open>str\<close> are.
\<close>

datatype cell = Str string | NaN | Num int

text \<open>
  A DataFrame: the column names in order, and the rows in order, each with its index
  label. Labels matter: selecting rows keeps them, sorting moves them with their rows,
  and \<^verbatim>\<open>series[i]\<close> on an integer index looks a label up, not a position.
\<close>

record frame =
  columns :: "string list"
  rows :: "(nat \<times> cell list) list"

datatype error =
    FileNotFoundError | EmptyDataError | ParserError | NotModelled
  | KeyError | IndexError | ValueError | AttributeError | TypeError
  | NotFittedError | EOFError

text \<open>\<^verbatim>\<open>pd.DataFrame(columns=[...])\<close> and \<^verbatim>\<open>pd.DataFrame({'description': [d], 'priority': [p]})\<close>.\<close>

definition DataFrame :: "string list \<Rightarrow> frame" where
  "DataFrame cols = \<lparr>columns = cols, rows = []\<rparr>"

definition new_task :: "string \<Rightarrow> string \<Rightarrow> frame" where
  "new_task description priority =
     \<lparr>columns = [''description'', ''priority''], rows = [(0, [Str description, Str priority])]\<rparr>"

text \<open>\<^verbatim>\<open>df.empty\<close>: some axis has length 0.\<close>

definition df_empty :: "frame \<Rightarrow> bool" where
  "df_empty f \<longleftrightarrow> rows f = [] \<or> columns f = []"

text \<open>The position of a column name, and \<^verbatim>\<open>df[name]\<close>: the Series of that column, each
  value with its label; KeyError when there is no such column.\<close>

fun position :: "string \<Rightarrow> string list \<Rightarrow> nat option" where
  "position name [] = None"
| "position name (c # cs) =
     (if c = name then Some 0 else map_option Suc (position name cs))"

definition getitem :: "frame \<Rightarrow> string \<Rightarrow> error + (nat \<times> cell) list" where
  "getitem f name =
     (case position name (columns f) of
        None \<Rightarrow> Inl KeyError
      | Some i \<Rightarrow> Inr (map (\<lambda>(l, cs). (l, cs ! i)) (rows f)))"

text \<open>\<^verbatim>\<open>df[keep]\<close> with a boolean Series aligned to the rows: the rows whose entry is
  true, in order, labels kept.\<close>

definition select :: "frame \<Rightarrow> bool list \<Rightarrow> frame" where
  "select f keep = f\<lparr>rows := map snd (filter fst (zip keep (rows f)))\<rparr>"

text \<open>
  \<^verbatim>\<open>pd.concat([f, g], ignore_index=True)\<close>: the columns of \<open>f\<close>, then those of \<open>g\<close> that
  \<open>f\<close> lacks; the rows of \<open>f\<close>, then those of \<open>g\<close>, each re-laid over the joint columns
  with \<^verbatim>\<open>nan\<close> where it has no value; labels renumbered from 0.
\<close>

definition relay :: "string list \<Rightarrow> string list \<Rightarrow> cell list \<Rightarrow> cell list" where
  "relay src dst cs =
     map (\<lambda>c. case map_of (zip src cs) c of Some v \<Rightarrow> v | None \<Rightarrow> NaN) dst"

definition concat_frames :: "frame \<Rightarrow> frame \<Rightarrow> frame" where
  "concat_frames f g =
     (let cols = columns f @ filter (\<lambda>c. c \<notin> set (columns f)) (columns g);
          body = map (relay (columns f) cols \<circ> snd) (rows f)
               @ map (relay (columns g) cols \<circ> snd) (rows g)
      in \<lparr>columns = cols, rows = zip [0..<length body] body\<rparr>)"

text \<open>
  \<^verbatim>\<open>df.sort_values(by=name)\<close>. Missing values go last; strings order among themselves
  and numbers among themselves; comparing a string with a number raises TypeError.
  The default sort kind is not stable: which of two rows with equal keys comes first
  is the library's choice. That choice is the parameter \<open>tie\<close>, a ranking of the row
  labels: rows with equal keys come out in the order of their ranks.
\<close>

fun sort_rank :: "cell \<Rightarrow> nat \<times> int \<times> string" where
  "sort_rank (Str s) = (0, 0, s)"
| "sort_rank (Num n) = (0, n, [])"
| "sort_rank NaN = (1, 0, [])"

fun is_Str :: "cell \<Rightarrow> bool" where
  "is_Str (Str s) = True"
| "is_Str c = False"

fun is_Num :: "cell \<Rightarrow> bool" where
  "is_Num (Num n) = True"
| "is_Num c = False"

definition sort_values :: "(nat \<Rightarrow> nat) \<Rightarrow> frame \<Rightarrow> string \<Rightarrow> error + frame" where
  "sort_values tie f name =
     (case position name (columns f) of
        None \<Rightarrow> Inl KeyError
      | Some i \<Rightarrow>
          if list_ex (\<lambda>r. is_Str (snd r ! i)) (rows f) \<and> list_ex (\<lambda>r. is_Num (snd r ! i)) (rows f)
          then Inl TypeError
          else Inr (f\<lparr>rows := sort_key (\<lambda>r. sort_rank (snd r ! i))
                                 (sort_key (\<lambda>r. tie (fst r)) (rows f))\<rparr>))"

section \<open>The persisted file\<close>

text \<open>
  \<^verbatim>\<open>tasks.csv\<close> is modelled by its records: the list of text fields of each line as
  the tokenizer splits it, the header line first; \<open>[]\<close> is a line the tokenizer skips.
  \<open>None\<close> is the absent file.
\<close>

type_synonym csv = "string list list"

definition digit :: "nat \<Rightarrow> char" where
  "digit n = ''0123456789'' ! n"

function show_nat :: "nat \<Rightarrow> string" where
  "show_nat n = (if n < 10 then [digit n] else show_nat (n div 10) @ [digit (n mod 10)])"
  by pat_completeness auto
termination
  by (relation "measure id") auto

definition show_int :: "int \<Rightarrow> string" where
  "show_int i = (if i < 0 then CHR ''-'' # show_nat (nat (- i)) else show_nat (nat i))"

text \<open>
  \<^verbatim>\<open>df.to_csv('tasks.csv', index=False)\<close>: a line for the column names, then one line
  per row in row order; the index is not written, and a missing value is written as
  the empty field. (Numbers are integers here; pandas turns a numeric column that has
  missing values into floats and writes those with a decimal point, which is not
  modelled.)

  What a line reads back as depends on the quoting. The writer puts a field in quotes
  when it holds a comma, a quote or a line feed, and when it is the empty only field
  of its line; the tokenizer reads a quoted field back whole. A carriage return alone
  does not make the writer quote (Python's \<^verbatim>\<open>csv\<close> module quotes it only in its newer
  versions; the older behaviour is the one written down here), and the tokenizer ends
  the line at a bare carriage return. So a row can come back as several records.
  A line with nothing on it but spaces and tabs is skipped by the tokenizer.
\<close>

fun to_text :: "cell \<Rightarrow> string" where
  "to_text (Str s) = s"
| "to_text NaN = []"
| "to_text (Num n) = show_int n"

definition quoted :: "string \<Rightarrow> bool" where
  "quoted f \<longleftrightarrow> list_ex (\<lambda>c. c = CHR '','' \<or> c = CHR 0x22 \<or> c = CHR 0x0A) f"

fun split_cr :: "string \<Rightarrow> string list" where
  "split_cr [] = [[]]"
| "split_cr (c # cs) =
     (if c = CHR 0x0D then [] # split_cr cs
      else case split_cr cs of [] \<Rightarrow> [[c]] | p # ps \<Rightarrow> (c # p) # ps)"

text \<open>The records that the fields of one written line come back as; \<open>cur\<close> is the
  record begun so far.\<close>

fun lines_of :: "string list \<Rightarrow> string list \<Rightarrow> csv" where
  "lines_of cur [] = [cur]"
| "lines_of cur (f # fs) =
     (if quoted f then lines_of (cur @ [f]) fs
      else case split_cr f of
             [] \<Rightarrow> lines_of cur fs
           | [p] \<Rightarrow> lines_of (cur @ [p]) fs
           | p # q # qs \<Rightarrow>
               (cur @ [p]) # map (\<lambda>x. [x]) (butlast (q # qs)) @ lines_of [last (q # qs)] fs)"

definition skipped :: "string list \<Rightarrow> bool" where
  "skipped r \<longleftrightarrow>
     (case r of [f] \<Rightarrow> list_all (\<lambda>c. c = CHR '' '' \<or> c = CHR 0x09) f | _ \<Rightarrow> False)"

definition line_records :: "string list \<Rightarrow> csv" where
  "line_records fs =
     (if fs = [[]] then [[[]]]
      else map (\<lambda>r. if skipped r then [] else r) (lines_of [] fs))"

definition to_csv :: "frame \<Rightarrow> csv" where
  "to_csv f = concat (map line_records (columns f # map (map to_text \<circ> snd) (rows f)))"

text \<open>
  \<^verbatim>\<open>pd.read_csv('tasks.csv')\<close> with its defaults. Blank lines are skipped; the first line
  left gives the column names; a short record is filled up with empty fields; a record
  with more fields than the header is a ParserError. The parser then types each column
  on its own. A field equal to one of \<open>na_values\<close> (pandas' default missing-value
  tokens, the empty field among them) is read as \<^verbatim>\<open>nan\<close>. A column whose fields all
  read as numbers or booleans is converted; that inference is the library's and is the
  parameter \<open>numeric\<close>: \<open>None\<close> when the column stays text, else the value of each
  field. The rows get the labels \<open>0, 1, ...\<close>.

  Two things pandas does with a header are not modelled and are marked as such: it
  renames repeated and empty column names, and it reads the surplus leading fields of
  a first record that is longer than the header as an index.
\<close>

definition na_values :: "string list" where
  "na_values =
     [[], ''#N/A'', ''#N/A N/A'', ''#NA'', ''-1.#IND'', ''-1.#QNAN'', ''-NaN'', ''-nan'',
      ''1.#IND'', ''1.#QNAN'', ''<NA>'', ''N/A'', ''NA'', ''NULL'', ''NaN'', ''None'',
      ''n/a'', ''nan'', ''null'']"

text \<open>The behaviour that belongs to pandas, numpy and scikit-learn and is taken as given,
  in one record: the parser's numeric inference, the vectorizer's analyzer, the fitted
  classifier's answer, and the sort's choice among equal keys.\<close>

record lib =
  numeric :: "string list \<Rightarrow> (string \<Rightarrow> cell) option"
  analyzer :: "string \<Rightarrow> string list"
  classify :: "string list \<Rightarrow> cell list \<Rightarrow> string \<Rightarrow> cell"
  tie_rank :: "nat \<Rightarrow> nat"

definition infer :: "lib \<Rightarrow> string list \<Rightarrow> cell list" where
  "infer L toks =
     (case numeric L toks of
        Some v \<Rightarrow> map v toks
      | None \<Rightarrow> map (\<lambda>t. if t \<in> set na_values then NaN else Str t) toks)"

definition pad :: "nat \<Rightarrow> string list \<Rightarrow> string list" where
  "pad n r = r @ replicate (n - length r) []"

definition read_csv :: "lib \<Rightarrow> csv option \<Rightarrow> error + frame" where
  "read_csv L file =
     (case file of
        None \<Rightarrow> Inl FileNotFoundError
      | Some recs \<Rightarrow>
          (case filter (\<lambda>r. r \<noteq> []) recs of
             [] \<Rightarrow> Inl EmptyDataError
           | hdr # body \<Rightarrow>
               if \<not> distinct hdr \<or> [] \<in> set hdr then Inl NotModelled
               else if body \<noteq> [] \<and> length hdr < length (hd body) then Inl NotModelled
               else if list_ex (\<lambda>r. length hdr < length r) body then Inl ParserError
               else
                 let grid = map (pad (length hdr)) body;
                     cols = map (\<lambda>j. infer L (map (\<lambda>r. r ! j) grid)) [0..<length hdr]
                 in Inr \<lparr>columns = hdr,
                         rows = map (\<lambda>i. (i, map (\<lambda>c. c ! i) cols)) [0..<length body]\<rparr>))"

section \<open>The classifier\<close>

text \<open>
  \<^verbatim>\<open>make_pipeline(CountVectorizer(stop_words='english', min_df=1), MultinomialNB())\<close>.
  A fitted pipeline is represented by the data it was fitted on. Two parts are the
  library's and are parameters: \<open>analyzer\<close>, the tokens of a document that the
  vectorizer keeps (lower-cased words of two or more characters that are not English
  stop words), and \<open>classify\<close>, the label the fitted naive-Bayes model gives a document.

  \<^verbatim>\<open>fit\<close> raises where scikit-learn does. In the vectorizer: on a document that is not
  a string (\<^verbatim>\<open>nan\<close>: ValueError; a number: AttributeError, it has no \<^verbatim>\<open>lower\<close>) and
  on an empty vocabulary (ValueError; no documents at all is such a case); the
  pipeline is then as unfitted as before. In the classifier: on labels that contain
  \<^verbatim>\<open>nan\<close> (ValueError) or mix strings with numbers (TypeError); the pipeline is then
  left with its vectorizer fitted and its classifier not, and \<^verbatim>\<open>predict\<close> on it gets
  through the vectorizer and fails in the classifier with AttributeError.
\<close>

datatype pipeline = Unfitted | Vectorized | Fitted "string list" "cell list"

fun bad_document :: "cell list \<Rightarrow> error option" where
  "bad_document [] = None"
| "bad_document (Str s # cs) = bad_document cs"
| "bad_document (NaN # cs) = Some ValueError"
| "bad_document (Num n # cs) = Some AttributeError"

fun the_Str :: "cell \<Rightarrow> string" where
  "the_Str (Str s) = s"
| "the_Str c = []"

definition fit :: "lib \<Rightarrow> cell list \<Rightarrow> cell list \<Rightarrow> (error \<times> pipeline) + pipeline" where
  "fit L X y =
     (case bad_document X of
        Some e \<Rightarrow> Inl (e, Unfitted)
      | None \<Rightarrow>
          if concat (map (analyzer L \<circ> the_Str) X) = [] then Inl (ValueError, Unfitted)
          else if list_ex (\<lambda>c. c = NaN) y then Inl (ValueError, Vectorized)
          else if list_ex is_Str y \<and> list_ex is_Num y then Inl (TypeError, Vectorized)
          else Inr (Fitted (map the_Str X) y))"

definition predict :: "lib \<Rightarrow> pipeline \<Rightarrow> cell list \<Rightarrow> error + cell list" where
  "predict L m X =
     (case m of
        Unfitted \<Rightarrow> Inl NotFittedError
      | Vectorized \<Rightarrow>
          (case bad_document X of
             Some e \<Rightarrow> Inl e
           | None \<Rightarrow> Inl AttributeError)
      | Fitted docs labels \<Rightarrow>
          (case bad_document X of
             Some e \<Rightarrow> Inl e
           | None \<Rightarrow> Inr (map (classify L docs labels \<circ> the_Str) X)))"

section \<open>TaskManager\<close>

text \<open>
  The state a method works on: the object's two attributes and the file
  \<^verbatim>\<open>tasks.csv\<close>. A method returns \<open>Inr\<close> the state it leaves, or \<open>Inl\<close> the exception it
  raises together with the state at that moment (what was assigned or written before
  the raise stays so).
\<close>

record manager =
  tasks :: frame
  model :: pipeline
  tasks_csv :: "csv option"

type_synonym outcome = "(error \<times> manager) + manager"

definition load_tasks :: "lib \<Rightarrow> manager \<Rightarrow> outcome" where
  "load_tasks L s =
     (case read_csv L (tasks_csv s) of
        Inr t \<Rightarrow> Inr (s\<lparr>tasks := t\<rparr>)
      | Inl e \<Rightarrow> if e = FileNotFoundError then Inr s else Inl (e, s))"

definition save_tasks :: "manager \<Rightarrow> manager" where
  "save_tasks s = s\<lparr>tasks_csv := Some (to_csv (tasks s))\<rparr>"

definition train_model :: "lib \<Rightarrow> manager \<Rightarrow> outcome" where
  "train_model L s =
     (let s1 = s\<lparr>model := Unfitted\<rparr> in
      case getitem (tasks s1) ''description'' of
        Inl e \<Rightarrow> Inl (e, s1)
      | Inr X \<Rightarrow>
          (case getitem (tasks s1) ''priority'' of
             Inl e \<Rightarrow> Inl (e, s1)
           | Inr y \<Rightarrow>
               (case fit L (map snd X) (map snd y) of
                  Inl (e, m) \<Rightarrow> Inl (e, s1\<lparr>model := m\<rparr>)
                | Inr m \<Rightarrow> Inr (s1\<lparr>model := m\<rparr>))))"

text \<open>\<^verbatim>\<open>__init__\<close>, given what is on disk. Until \<^verbatim>\<open>train_model\<close> assigns it the object has
  no \<^verbatim>\<open>model\<close> attribute; nothing reads it before, and it is shown as \<open>Unfitted\<close>.\<close>

definition init :: "lib \<Rightarrow> csv option \<Rightarrow> outcome" where
  "init L file =
     (let s = \<lparr>tasks = DataFrame [''description'', ''priority''], model = Unfitted,
                tasks_csv = file\<rparr> in
      case load_tasks L s of
        Inl r \<Rightarrow> Inl r
      | Inr s1 \<Rightarrow> train_model L s1)"

definition add_task :: "lib \<Rightarrow> manager \<Rightarrow> string \<Rightarrow> string \<Rightarrow> outcome" where
  "add_task L s description priority =
     (let s1 = s\<lparr>tasks := concat_frames (tasks s) (new_task description priority)\<rparr>;
          s2 = save_tasks s1
      in train_model L s2)"

definition remove_task :: "manager \<Rightarrow> string \<Rightarrow> outcome" where
  "remove_task s description =
     (case getitem (tasks s) ''description'' of
        Inl e \<Rightarrow> Inl (e, s)
      | Inr col \<Rightarrow>
          Inr (save_tasks
                 (s\<lparr>tasks := select (tasks s) (map (\<lambda>(l, c). c \<noteq> Str description) col)\<rparr>)))"

datatype out = Print string | Prompt string | PrintFrame frame

definition list_tasks :: "manager \<Rightarrow> out list" where
  "list_tasks s =
     (if df_empty (tasks s) then [Print ''No tasks available.'']
      else [PrintFrame (tasks s)])"

definition prioritize_tasks :: "lib \<Rightarrow> manager \<Rightarrow> outcome" where
  "prioritize_tasks L s =
     (case sort_values (tie_rank L) (tasks s) ''priority'' of
        Inl e \<Rightarrow> Inl (e, s)
      | Inr t \<Rightarrow> Inr (save_tasks (s\<lparr>tasks := t\<rparr>)))"

text \<open>
  \<^verbatim>\<open>random.choice(seq)\<close> is \<^verbatim>\<open>seq[self._randbelow(len(seq))]\<close>, IndexError on an empty
  sequence. The generator's draw is an input, \<open>seed\<close>, brought into \<^verbatim>\<open>range(n)\<close>. On a
  Series with an integer index \<^verbatim>\<open>seq[i]\<close> is a look-up of the label \<open>i\<close>.
\<close>

definition randbelow :: "nat \<Rightarrow> nat \<Rightarrow> nat" where
  "randbelow seed n = seed mod n"

definition random_choice :: "nat \<Rightarrow> (nat \<times> cell) list \<Rightarrow> error + cell" where
  "random_choice seed series =
     (if series = [] then Inl IndexError
      else case map_of series (randbelow seed (length series)) of
             None \<Rightarrow> Inl KeyError
           | Some v \<Rightarrow> Inr v)"

text \<open>Python's \<^verbatim>\<open>==\<close> on cells (\<^verbatim>\<open>nan\<close> equals nothing) and \<^verbatim>\<open>str()\<close> in an f-string.\<close>

definition py_eq :: "cell \<Rightarrow> cell \<Rightarrow> bool" where
  "py_eq a b \<longleftrightarrow> a \<noteq> NaN \<and> a = b"

fun py_str :: "cell \<Rightarrow> string" where
  "py_str (Str s) = s"
| "py_str NaN = ''nan''"
| "py_str (Num n) = show_int n"

definition recommend_task :: "lib \<Rightarrow> nat \<Rightarrow> manager \<Rightarrow> out list \<times> error option" where
  "recommend_task L seed s =
     (if df_empty (tasks s) then ([Print ''No tasks available for recommendations.''], None)
      else
        (case getitem (tasks s) ''description'' of
           Inl e \<Rightarrow> ([], Some e)
         | Inr X \<Rightarrow>
        (case predict L (model s) (map snd X) of
           Inl e \<Rightarrow> ([], Some e)
         | Inr predictions \<Rightarrow>
        (case getitem (tasks s) ''priority'' of
           Inl e \<Rightarrow> ([], Some e)
         | Inr y \<Rightarrow>
        (case predictions of
           [] \<Rightarrow> ([], Some IndexError)
         | p # ps \<Rightarrow>
        (case getitem (select (tasks s) (map (\<lambda>(l, c). py_eq c p) y)) ''description'' of
           Inl e \<Rightarrow> ([], Some e)
         | Inr candidates \<Rightarrow>
        (case random_choice seed candidates of
           Inl e \<Rightarrow> ([], Some e)
         | Inr recommended \<Rightarrow>
             ([Print (''Recommended task: '' @ py_str recommended @ '' - Priority: ''
                      @ py_str p)], None))))))))"

section \<open>The menu\<close>

text \<open>
  \<^verbatim>\<open>str.capitalize()\<close>: the first character in upper case, the rest in lower case. The
  ASCII letters are mapped; other bytes are left as they are (Python maps other
  letters too, to characters that are not ASCII either).
\<close>

definition upper :: "char \<Rightarrow> char" where
  "upper c =
     (case map_of (zip ''abcdefghijklmnopqrstuvwxyz'' ''ABCDEFGHIJKLMNOPQRSTUVWXYZ'') c of
        Some u \<Rightarrow> u | None \<Rightarrow> c)"

definition lower :: "char \<Rightarrow> char" where
  "lower c =
     (case map_of (zip ''ABCDEFGHIJKLMNOPQRSTUVWXYZ'' ''abcdefghijklmnopqrstuvwxyz'') c of
        Some u \<Rightarrow> u | None \<Rightarrow> c)"

fun capitalize :: "string \<Rightarrow> string" where
  "capitalize [] = []"
| "capitalize (c # cs) = upper c # map lower cs"

text \<open>
  \<^verbatim>\<open>main_menu\<close> run on the lines the user types (\<^verbatim>\<open>input()\<close> at the end of the input
  raises EOFError). It returns what was written and how the loop ended: \<open>Inr\<close> the
  state at \<^verbatim>\<open>break\<close>, or \<open>Inl\<close> the exception that left the loop. No call in the loop is
  inside a \<^verbatim>\<open>try\<close>. \<open>seed k\<close> is the generator's draw in the \<open>k\<close>-th turn of the loop.
\<close>

definition menu :: "out list" where
  "menu =
     [Print (CHR 0x0A # ''Task Management App''), Print ''1. Add Task'',
      Print ''2. Remove Task'', Print ''3. List Tasks'', Print ''4. Prioritize Tasks'',
      Print ''5. Recommend Task'', Print ''6. Exit'', Prompt ''Select an option: '']"

definition after :: "out list \<Rightarrow> out list \<times> outcome \<Rightarrow> out list \<times> outcome" where
  "after written run = (written @ fst run, snd run)"

fun main_menu :: "lib \<Rightarrow> (nat \<Rightarrow> nat) \<Rightarrow> nat \<Rightarrow> manager \<Rightarrow> string list \<Rightarrow> out list \<times> outcome" where
  "main_menu L seed k s [] = (menu, Inl (EOFError, s))"
| "main_menu L seed k s (choice # inputs) =
     (if choice = ''1'' then
        (case inputs of
           [] \<Rightarrow> (menu @ [Prompt ''Enter task description: ''], Inl (EOFError, s))
         | [description] \<Rightarrow>
             (menu @ [Prompt ''Enter task description: '',
                      Prompt ''Enter task priority (Low/Medium/High): ''], Inl (EOFError, s))
         | description # typed # rest \<Rightarrow>
             (let priority = capitalize typed;
                  asked = menu @ [Prompt ''Enter task description: '',
                                  Prompt ''Enter task priority (Low/Medium/High): '']
              in if priority \<notin> set [''Low'', ''Medium'', ''High''] then
                   after (asked @ [Print ''Invalid priority! Please enter Low, Medium, or High.''])
                     (main_menu L seed (Suc k) s rest)
                 else
                   (case add_task L s description priority of
                      Inl r \<Rightarrow> (asked, Inl r)
                    | Inr s' \<Rightarrow>
                        after (asked @ [Print ''Task added successfully.''])
                          (main_menu L seed (Suc k) s' rest))))
      else if choice = ''2'' then
        (case inputs of
           [] \<Rightarrow> (menu @ [Prompt ''Enter task description to remove: ''], Inl (EOFError, s))
         | description # rest \<Rightarrow>
             (let asked = menu @ [Prompt ''Enter task description to remove: '']
              in case remove_task s description of
                   Inl r \<Rightarrow> (asked, Inl r)
                 | Inr s' \<Rightarrow>
                     after (asked @ [Print ''Task removed successfully.''])
                       (main_menu L seed (Suc k) s' rest)))
      else if choice = ''3'' then
        after (menu @ list_tasks s) (main_menu L seed (Suc k) s inputs)
      else if choice = ''4'' then
        (case prioritize_tasks L s of
           Inl r \<Rightarrow> (menu, Inl r)
         | Inr s' \<Rightarrow>
             after (menu @ [Print ''Tasks prioritized successfully.''])
               (main_menu L seed (Suc k) s' inputs))
      else if choice = ''5'' then
        (case recommend_task L (seed k) s of
           (written, Some e) \<Rightarrow> (menu @ written, Inl (e, s))
         | (written, None) \<Rightarrow> after (menu @ written) (main_menu L seed (Suc k) s inputs))
      else if choice = ''6'' then (menu @ [Print ''Goodbye!''], Inr s)
      else
        after (menu @ [Print ''Invalid option. Please select a valid option.''])
          (main_menu L seed (Suc k) s inputs))"

section \<open>Outcomes, the table invariant and worked examples\<close>

text \<open>The state an outcome leaves, whether the method returned or raised, and one
  method call after another (an exception ends the sequence).\<close>

fun state_of :: "outcome \<Rightarrow> manager" where
  "state_of (Inl (e, s)) = s"
| "state_of (Inr s) = s"

definition and_then :: "outcome \<Rightarrow> (manager \<Rightarrow> outcome) \<Rightarrow> outcome" where
  "and_then r f = (case r of Inl e \<Rightarrow> Inl e | Inr s \<Rightarrow> f s)"

text \<open>The table the program means to keep: exactly the columns \<^verbatim>\<open>description\<close> and
  \<^verbatim>\<open>priority\<close>, in this order, and so two cells in every row.\<close>

definition task_table :: "frame \<Rightarrow> bool" where
  "task_table f \<longleftrightarrow>
     columns f = [''description'', ''priority''] \<and> list_all (\<lambda>r. length (snd r) = 2) (rows f)"

text \<open>
  An instance of the library parameters for the worked examples: no column is
  converted (the examples' columns hold words), a non-empty document is one token, the
  classifier answers with the first training label, and ties keep the label order.
\<close>

definition demo :: lib where
  "demo = \<lparr>numeric = (\<lambda>toks. None),
            analyzer = (\<lambda>d. if d = [] then [] else [d]),
            classify = (\<lambda>docs labels d. case labels of [] \<Rightarrow> NaN | l # ls \<Rightarrow> l),
            tie_rank = (\<lambda>l. l)\<rparr>"

text \<open>The program started on a file with two tasks; the same after
  \<^verbatim>\<open>remove_task('buy milk')\<close>; and a table with a repeated description.\<close>

definition two_tasks :: manager where
  "two_tasks =
     \<lparr>tasks = \<lparr>columns = [''description'', ''priority''],
                rows = [(0, [Str ''buy milk'', Str ''Low'']),
                        (1, [Str ''write report'', Str ''High''])]\<rparr>,
      model = Fitted [''buy milk'', ''write report''] [Str ''Low'', Str ''High''],
      tasks_csv = Some [[''description'', ''priority''], [''buy milk'', ''Low''],
                        [''write report'', ''High'']]\<rparr>"

definition one_left :: manager where
  "one_left =
     \<lparr>tasks = \<lparr>columns = [''description'', ''priority''],
                rows = [(1, [Str ''write report'', Str ''High''])]\<rparr>,
      model = Fitted [''buy milk'', ''write report''] [Str ''Low'', Str ''High''],
      tasks_csv = Some [[''description'', ''priority''], [''write report'', ''High'']]\<rparr>"

definition three_tasks :: manager where
  "three_tasks =
     \<lparr>tasks = \<lparr>columns = [''description'', ''priority''],
                rows = [(0, [Str ''buy milk'', Str ''Medium'']),
                        (1, [Str ''write report'', Str ''Low'']),
                        (2, [Str ''buy milk'', Str ''High''])]\<rparr>,
      model = Fitted [''buy milk'', ''write report'', ''buy milk'']
                [Str ''Medium'', Str ''Low'', Str ''High''],
      tasks_csv = Some [[''description'', ''priority''], [''buy milk'', ''Medium''],
                        [''write report'', ''Low''], [''buy milk'', ''High'']]\<rparr>"

section \<open>Facts about the operations\<close>

lemma select_map: "map snd (filter fst (zip (map P xs) xs)) = filter P xs"
  by (induction xs) auto

lemma getitem_Some:
  "position name (columns f) = Some i \<Longrightarrow>
   getitem f name = Inr (map (\<lambda>r. (fst r, snd r ! i)) (rows f))"
  by (simp add: getitem_def case_prod_unfold)

lemma getitem_None: "position name (columns f) = None \<Longrightarrow> getitem f name = Inl KeyError"
  by (simp add: getitem_def)

lemma remove_task_Some:
  assumes "position ''description'' (columns (tasks s)) = Some i"
  shows "remove_task s d =
           Inr (save_tasks (s\<lparr>tasks := (tasks s)\<lparr>rows := filter (\<lambda>r. snd r ! i \<noteq> Str d) (rows (tasks s))\<rparr>\<rparr>))"
  unfolding remove_task_def getitem_Some [OF assms]
  by (simp add: select_def comp_def select_map)

lemma remove_task_None:
  assumes "position ''description'' (columns (tasks s)) = None"
  shows "remove_task s d = Inl (KeyError, s)"
  unfolding remove_task_def getitem_None [OF assms] by simp

lemma remove_task_columns:
  "columns (tasks (state_of (remove_task s d))) = columns (tasks s)
   \<and> set (rows (tasks (state_of (remove_task s d)))) \<subseteq> set (rows (tasks s))"
proof (cases "position ''description'' (columns (tasks s))")
  case None
  then show ?thesis by (simp add: remove_task_None)
next
  case (Some i)
  then show ?thesis by (auto simp add: remove_task_Some save_tasks_def)
qed

lemma train_model_frame:
  "tasks (state_of (train_model L s)) = tasks s \<and> tasks_csv (state_of (train_model L s)) = tasks_csv s"
  by (simp add: train_model_def Let_def split: sum.splits)

lemma train_model_cases:
  "(case train_model L s of
      Inr s' \<Rightarrow> \<exists>X y. getitem (tasks s) ''description'' = Inr X \<and> getitem (tasks s) ''priority'' = Inr y
                 \<and> fit L (map snd X) (map snd y) = Inr (model s')
                 \<and> s' = s\<lparr>model := model s'\<rparr>
    | Inl (e, s') \<Rightarrow> s' = s\<lparr>model := Unfitted\<rparr> \<or> s' = s\<lparr>model := Vectorized\<rparr>)"
  by (auto simp add: train_model_def Let_def fit_def split: sum.splits option.splits if_splits)

lemma fit_Inr: "fit L X y = Inr m \<Longrightarrow> m = Fitted (map the_Str X) y"
  by (auto simp add: fit_def split: option.splits if_splits)

lemma bad_document_Str: "list_all is_Str X \<Longrightarrow> bad_document X = None"
  by (induction X rule: bad_document.induct) simp_all

lemma all_Str_no_NaN: "list_all is_Str y \<Longrightarrow> \<not> list_ex (\<lambda>c. c = NaN) y"
  by (induction y) auto

lemma all_Str_no_Num: "list_all is_Str y \<Longrightarrow> \<not> list_ex is_Num y"
  by (induction y) (auto elim: is_Num.elims)

lemma fit_text:
  assumes "list_all is_Str X" and "list_all is_Str y"
      and "concat (map (analyzer L \<circ> the_Str) X) \<noteq> []"
  shows "fit L X y = Inr (Fitted (map the_Str X) y)"
  using assms
  by (simp add: fit_def bad_document_Str all_Str_no_NaN all_Str_no_Num del: concat_eq_Nil_conv)

lemma map_snd_zip_upt:
  "length ys = n \<Longrightarrow> map (\<lambda>r. f (snd r)) (zip [0..<n] ys) = map f ys"
  by (rule nth_equalityI) simp_all

lemma relay_same:
  "length cs = 2 \<Longrightarrow>
   relay [''description'', ''priority''] [''description'', ''priority''] cs = cs"
proof -
  assume "length cs = 2"
  then obtain a b where "cs = [a, b]"
    by (cases cs; cases "tl cs") auto
  then show ?thesis by (simp add: relay_def)
qed

lemma map_relay_same:
  "list_all (\<lambda>r. length (snd r) = 2) rs \<Longrightarrow>
   map (relay [''description'', ''priority''] [''description'', ''priority''] \<circ> snd) rs = map snd rs"
  by (induction rs) (simp_all add: relay_same)

lemma concat_new_task:
  assumes "columns f = [''description'', ''priority'']"
      and "list_all (\<lambda>r. length (snd r) = 2) (rows f)"
  shows "concat_frames f (new_task d p) =
           \<lparr>columns = [''description'', ''priority''],
            rows = zip [0..<Suc (length (rows f))] (map snd (rows f) @ [[Str d, Str p]])\<rparr>"
  using assms
  by (simp add: concat_frames_def new_task_def Let_def map_relay_same relay_def del: upt_Suc)

lemma add_task_tasks:
  "tasks (state_of (add_task L s d p)) = concat_frames (tasks s) (new_task d p)"
  by (simp add: add_task_def Let_def train_model_frame save_tasks_def)

lemma add_task_fit:
  assumes "columns (tasks s) = [''description'', ''priority'']"
      and "list_all (\<lambda>r. length (snd r) = 2) (rows (tasks s))"
  shows "add_task L s d p =
           (case fit L (map (\<lambda>r. snd r ! 0) (rows (tasks s)) @ [Str d])
                       (map (\<lambda>r. snd r ! 1) (rows (tasks s)) @ [Str p]) of
              Inr m \<Rightarrow>
                Inr (save_tasks (s\<lparr>tasks := concat_frames (tasks s) (new_task d p)\<rparr>)
                       \<lparr>model := m\<rparr>)
            | Inl (e, m) \<Rightarrow>
                Inl (e, save_tasks (s\<lparr>tasks := concat_frames (tasks s) (new_task d p)\<rparr>)
                          \<lparr>model := m\<rparr>))"
proof -
  let ?new = "concat_frames (tasks s) (new_task d p)"
  let ?cells = "map snd (rows (tasks s)) @ [[Str d, Str p]]"
  have new: "?new = \<lparr>columns = [''description'', ''priority''],
                      rows = zip [0..<Suc (length (rows (tasks s)))] ?cells\<rparr>"
    by (rule concat_new_task [OF assms])
  have len: "length ?cells = Suc (length (rows (tasks s)))"
    by simp
  have X: "getitem ?new ''description''
             = Inr (map (\<lambda>r. (fst r, snd r ! 0)) (zip [0..<Suc (length (rows (tasks s)))] ?cells))"
    unfolding new by (simp add: getitem_def case_prod_unfold del: upt_Suc)
  have y: "getitem ?new ''priority''
             = Inr (map (\<lambda>r. (fst r, snd r ! 1)) (zip [0..<Suc (length (rows (tasks s)))] ?cells))"
    unfolding new by (simp add: getitem_def case_prod_unfold del: upt_Suc)
  have Xs: "map snd (map (\<lambda>r. (fst r, snd r ! 0)) (zip [0..<Suc (length (rows (tasks s)))] ?cells))
            = map (\<lambda>r. snd r ! 0) (rows (tasks s)) @ [Str d]"
    using map_snd_zip_upt [OF len, of "\<lambda>cs. cs ! 0"] by (simp add: comp_def del: upt_Suc)
  have ys: "map snd (map (\<lambda>r. (fst r, snd r ! 1)) (zip [0..<Suc (length (rows (tasks s)))] ?cells))
            = map (\<lambda>r. snd r ! 1) (rows (tasks s)) @ [Str p]"
    using map_snd_zip_upt [OF len, of "\<lambda>cs. cs ! 1"] by (simp add: comp_def del: upt_Suc)
  let ?s2 = "save_tasks (s\<lparr>tasks := ?new\<rparr>)"
  have t: "tasks (?s2\<lparr>model := Unfitted\<rparr>) = ?new"
    by (simp add: save_tasks_def)
  have "train_model L ?s2 =
          (case fit L (map (\<lambda>r. snd r ! 0) (rows (tasks s)) @ [Str d])
                      (map (\<lambda>r. snd r ! 1) (rows (tasks s)) @ [Str p]) of
             Inr m \<Rightarrow> Inr (?s2\<lparr>model := m\<rparr>)
           | Inl (e, m) \<Rightarrow> Inl (e, ?s2\<lparr>model := m\<rparr>))"
    unfolding train_model_def Let_def t X y sum.case Xs ys
    by (simp split: sum.splits)
  then show ?thesis
    by (simp add: add_task_def Let_def)
qed

lemma sort_values_columns:
  "sort_values tie f name = Inr g \<Longrightarrow> columns g = columns f \<and> set (rows g) = set (rows f)"
  by (auto simp add: sort_values_def split: option.splits if_splits)

lemma prioritize_tasks_columns:
  "columns (tasks (state_of (prioritize_tasks L s))) = columns (tasks s)
   \<and> set (rows (tasks (state_of (prioritize_tasks L s)))) = set (rows (tasks s))"
  by (auto simp add: prioritize_tasks_def save_tasks_def split: sum.splits dest: sort_values_columns)

lemma sort_rank_Str_le: "sort_rank (Str a) \<le> sort_rank (Str b) \<longleftrightarrow> a \<le> b"
  by (simp add: less_eq_prod_def)

lemma sorted_Str_keys:
  assumes "list_all (\<lambda>r. is_Str (snd r ! i)) ys"
      and "sorted (map (\<lambda>r. sort_rank (snd r ! i)) ys)"
  shows "sorted (map (\<lambda>r. the_Str (snd r ! i)) ys)"
  using assms
proof (induction ys)
  case Nil
  then show ?case by simp
next
  case (Cons y ys)
  have "the_Str (snd y ! i) \<le> the_Str (snd z ! i)" if "z \<in> set ys" for z
  proof -
    from Cons.prems that have "sort_rank (snd y ! i) \<le> sort_rank (snd z ! i)"
      and "is_Str (snd y ! i)" and "is_Str (snd z ! i)"
      by (auto simp add: list_all_iff)
    then show ?thesis
      by (cases "snd y ! i"; cases "snd z ! i") (simp_all add: sort_rank_Str_le)
  qed
  with Cons show ?case by simp
qed

lemma all_Str_not_mixed:
  "list_all (\<lambda>r. is_Str (snd r ! i)) rs \<Longrightarrow> \<not> list_ex (\<lambda>r. is_Num (snd r ! i)) rs"
  by (induction rs) (auto elim: is_Num.elims)

section \<open>recommend_task\<close>

text \<open>
  C1. For a non-empty table \<^verbatim>\<open>recommend_task\<close> is to pick one of the tasks whose stored
  priority equals the label predicted for the first row and report it. It does not
  always do so. Started on a file with the tasks (buy milk, Low) and (write report,
  High), and after \<^verbatim>\<open>remove_task('buy milk')\<close>, the one row left carries the label 1.
  If the prediction for it is High, the candidates are that one row and
  \<^verbatim>\<open>random.choice\<close> asks for \<^verbatim>\<open>series[0]\<close>, a label that is not there: KeyError. If
  the prediction is anything else (the model was not retrained and still knows Low),
  there is no candidate: IndexError. Whatever the classifier and the draw,
  \<^verbatim>\<open>recommend_task\<close> raises and reports nothing.
\<close>

theorem recommend_task_raises_after_removal:
  "init demo (tasks_csv two_tasks) = Inr two_tasks
   \<and> remove_task two_tasks ''buy milk'' = Inr one_left
   \<and> recommend_task L seed one_left =
       ([], Some (if classify L [''buy milk'', ''write report''] [Str ''Low'', Str ''High'']
                      ''write report'' = Str ''High''
                  then KeyError else IndexError))"
proof (intro conjI)
  show "init demo (tasks_csv two_tasks) = Inr two_tasks"
    by (simp add: init_def load_tasks_def read_csv_def two_tasks_def DataFrame_def Let_def
        pad_def infer_def demo_def na_values_def train_model_def getitem_def fit_def upt_rec)
  show "remove_task two_tasks ''buy milk'' = Inr one_left"
    by (simp add: remove_task_def getitem_def select_def save_tasks_def to_csv_def line_records_def skipped_def quoted_def
        two_tasks_def one_left_def)
  show "recommend_task L seed one_left =
       ([], Some (if classify L [''buy milk'', ''write report''] [Str ''Low'', Str ''High'']
                      ''write report'' = Str ''High''
                  then KeyError else IndexError))"
    by (simp add: recommend_task_def df_empty_def getitem_def predict_def select_def
        py_eq_def random_choice_def randbelow_def one_left_def)
qed

section \<open>remove_task\<close>

text \<open>
  C2. On a table with a \<^verbatim>\<open>description\<close> column (at position \<open>i\<close>), \<^verbatim>\<open>remove_task(d)\<close>
  returns, keeps the columns, and leaves exactly the rows whose description cell is
  not the string \<open>d\<close>, in their original order: every row whose description equals
  \<open>d\<close> character for character is gone, duplicates included, and no other row is.
\<close>

theorem remove_task_removes_matching_rows:
  assumes "position ''description'' (columns (tasks s)) = Some i"
  shows "\<exists>s'. remove_task s d = Inr s'
           \<and> columns (tasks s') = columns (tasks s)
           \<and> rows (tasks s') = filter (\<lambda>r. snd r ! i \<noteq> Str d) (rows (tasks s))"
  by (simp add: remove_task_Some [OF assms] save_tasks_def)

theorem remove_task_removes_matching_rows_witness:
  "position ''description'' (columns (tasks three_tasks)) = Some 0
   \<and> (\<exists>s'. remove_task three_tasks ''buy milk'' = Inr s'
           \<and> columns (tasks s') = [''description'', ''priority'']
           \<and> rows (tasks s') = [(1, [Str ''write report'', Str ''Low''])])
   \<and> (\<exists>s'. remove_task three_tasks ''Buy milk'' = Inr s'
           \<and> rows (tasks s') = rows (tasks three_tasks))"
proof -
  have h: "position ''description'' (columns (tasks three_tasks)) = Some 0"
    by (simp add: three_tasks_def)
  from remove_task_removes_matching_rows [OF h, of "''buy milk''"]
  have a: "\<exists>s'. remove_task three_tasks ''buy milk'' = Inr s'
           \<and> columns (tasks s') = [''description'', ''priority'']
           \<and> rows (tasks s') = [(1, [Str ''write report'', Str ''Low''])]"
    by (simp add: three_tasks_def)
  from remove_task_removes_matching_rows [OF h, of "''Buy milk''"]
  have b: "\<exists>s'. remove_task three_tasks ''Buy milk'' = Inr s'
           \<and> rows (tasks s') = rows (tasks three_tasks)"
    by (auto simp add: three_tasks_def)
  from h a b show ?thesis by blast
qed

text \<open>
  C9. \<^verbatim>\<open>remove_task(d)\<close> twice is \<^verbatim>\<open>remove_task(d)\<close> once: the second call returns the
  state the first one left (table, model and file), and if the first raised, that is
  the outcome. When no row's description is \<open>d\<close>, the call leaves the table as it
  was: its outcome is the state with the file written again.
\<close>

theorem remove_task_idempotent:
  "and_then (remove_task s d) (\<lambda>s'. remove_task s' d) = remove_task s d
   \<and> (position ''description'' (columns (tasks s)) = Some i
        \<and> list_all (\<lambda>r. snd r ! i \<noteq> Str d) (rows (tasks s))
      \<longrightarrow> remove_task s d = Inr (save_tasks s))"
proof (cases "position ''description'' (columns (tasks s))")
  case None
  then show ?thesis
    by (simp add: remove_task_None and_then_def)
next
  case (Some j)
  let ?s1 = "save_tasks (s\<lparr>tasks := (tasks s)\<lparr>rows := filter (\<lambda>r. snd r ! j \<noteq> Str d) (rows (tasks s))\<rparr>\<rparr>)"
  have pos1: "position ''description'' (columns (tasks ?s1)) = Some j"
    using Some by (simp add: save_tasks_def)
  have twice: "remove_task ?s1 d = Inr ?s1"
    unfolding remove_task_Some [OF pos1] by (simp add: save_tasks_def)
  have same: "list_all (\<lambda>r. snd r ! j \<noteq> Str d) (rows (tasks s)) \<Longrightarrow> ?s1 = save_tasks s"
    by (simp add: save_tasks_def list_all_iff)
  show ?thesis
    using twice same Some by (auto simp add: remove_task_Some [OF Some] and_then_def)
qed

theorem remove_task_idempotent_witness:
  "position ''description'' (columns (tasks three_tasks)) = Some 0
   \<and> list_all (\<lambda>r. snd r ! 0 \<noteq> Str ''call bank'') (rows (tasks three_tasks))
   \<and> remove_task three_tasks ''call bank'' = Inr three_tasks
   \<and> and_then (remove_task three_tasks ''buy milk'') (\<lambda>s'. remove_task s' ''buy milk'')
       = remove_task three_tasks ''buy milk''"
proof -
  have h: "position ''description'' (columns (tasks three_tasks)) = Some 0"
    "list_all (\<lambda>r. snd r ! 0 \<noteq> Str ''call bank'') (rows (tasks three_tasks))"
    by (simp_all add: three_tasks_def)
  have s: "save_tasks three_tasks = three_tasks"
    by (simp add: save_tasks_def to_csv_def line_records_def skipped_def quoted_def three_tasks_def)
  show ?thesis
    using h s remove_task_idempotent [of three_tasks "''call bank''" 0]
      remove_task_idempotent [of three_tasks "''buy milk''" 0]
    by simp
qed

section \<open>The model after remove_task and add_task\<close>

text \<open>
  C3. \<^verbatim>\<open>remove_task\<close> leaves the model as it was, whether it returns or raises.
  \<^verbatim>\<open>add_task\<close> never does. When it returns, the file holds the new table and the model
  is the one fitted on the new table's descriptions and priorities; when it raises,
  the file holds the new table all the same and the model is the pipeline that the
  failed fit left, never the old one. On a task table the outcome of \<^verbatim>\<open>add_task\<close> is
  that of fitting on the old descriptions and priorities followed by the new ones:
  it returns exactly when that fit succeeds. In particular, when all cells are
  strings and the vectorizer keeps a token of the new description, \<^verbatim>\<open>add_task\<close>
  returns, with the table saved and the model fitted on the old tasks and the new one.
\<close>

theorem remove_keeps_model_add_retrains:
  "model (state_of (remove_task s d)) = model s
   \<and> (case add_task L s d p of
        Inr s' \<Rightarrow>
          tasks_csv s' = Some (to_csv (tasks s'))
          \<and> (\<exists>X y. getitem (tasks s') ''description'' = Inr X
                  \<and> getitem (tasks s') ''priority'' = Inr y
                  \<and> model s' = Fitted (map (the_Str \<circ> snd) X) (map snd y))
      | Inl (e, s') \<Rightarrow>
          tasks_csv s' = Some (to_csv (tasks s'))
          \<and> (model s' = Unfitted \<or> model s' = Vectorized))
   \<and> (task_table (tasks s) \<longrightarrow>
        add_task L s d p =
          (case fit L (map (\<lambda>r. snd r ! 0) (rows (tasks s)) @ [Str d])
                      (map (\<lambda>r. snd r ! 1) (rows (tasks s)) @ [Str p]) of
             Inr m \<Rightarrow>
               Inr (save_tasks (s\<lparr>tasks := concat_frames (tasks s) (new_task d p)\<rparr>)
                      \<lparr>model := m\<rparr>)
           | Inl (e, m) \<Rightarrow>
               Inl (e, save_tasks (s\<lparr>tasks := concat_frames (tasks s) (new_task d p)\<rparr>)
                         \<lparr>model := m\<rparr>)))
   \<and> (task_table (tasks s) \<and> list_all (\<lambda>r. list_all is_Str (snd r)) (rows (tasks s))
        \<and> analyzer L d \<noteq> [] \<longrightarrow>
        add_task L s d p =
          Inr (save_tasks (s\<lparr>tasks := concat_frames (tasks s) (new_task d p)\<rparr>)
                 \<lparr>model := Fitted (map (\<lambda>r. the_Str (snd r ! 0)) (rows (tasks s)) @ [d])
                                  (map (\<lambda>r. snd r ! 1) (rows (tasks s)) @ [Str p])\<rparr>))"
proof (intro conjI impI)
  show "model (state_of (remove_task s d)) = model s"
    by (simp add: remove_task_def save_tasks_def split: sum.splits)
next
  let ?s2 = "save_tasks (s\<lparr>tasks := concat_frames (tasks s) (new_task d p)\<rparr>)"
  have a: "add_task L s d p = train_model L ?s2"
    by (simp add: add_task_def Let_def)
  have saved: "tasks_csv ?s2 = Some (to_csv (tasks ?s2))"
    by (simp add: save_tasks_def)
  show "case add_task L s d p of
        Inr s' \<Rightarrow>
          tasks_csv s' = Some (to_csv (tasks s'))
          \<and> (\<exists>X y. getitem (tasks s') ''description'' = Inr X
                  \<and> getitem (tasks s') ''priority'' = Inr y
                  \<and> model s' = Fitted (map (the_Str \<circ> snd) X) (map snd y))
      | Inl (e, s') \<Rightarrow>
          tasks_csv s' = Some (to_csv (tasks s'))
          \<and> (model s' = Unfitted \<or> model s' = Vectorized)"
  proof (cases "train_model L ?s2")
    case (Inl r)
    obtain e s' where r: "r = (e, s')" by (cases r)
    from train_model_cases [where L = L and s = ?s2] Inl r
    have "s' = ?s2\<lparr>model := Unfitted\<rparr> \<or> s' = ?s2\<lparr>model := Vectorized\<rparr>" by simp
    with saved show ?thesis unfolding a Inl r by (auto simp add: save_tasks_def)
  next
    case (Inr s')
    from train_model_cases [where L = L and s = ?s2] Inr obtain X y where
      X: "getitem (tasks ?s2) ''description'' = Inr X" and
      y: "getitem (tasks ?s2) ''priority'' = Inr y" and
      f: "fit L (map snd X) (map snd y) = Inr (model s')" and
      s': "s' = ?s2\<lparr>model := model s'\<rparr>"
      by auto
    have t: "tasks s' = tasks ?s2" "tasks_csv s' = tasks_csv ?s2"
      by (subst s', simp)+
    show ?thesis
      unfolding a Inr using X y fit_Inr [OF f] t saved by simp
  qed
next
  assume "task_table (tasks s)"
  then show "add_task L s d p =
          (case fit L (map (\<lambda>r. snd r ! 0) (rows (tasks s)) @ [Str d])
                      (map (\<lambda>r. snd r ! 1) (rows (tasks s)) @ [Str p]) of
             Inr m \<Rightarrow>
               Inr (save_tasks (s\<lparr>tasks := concat_frames (tasks s) (new_task d p)\<rparr>)
                      \<lparr>model := m\<rparr>)
           | Inl (e, m) \<Rightarrow>
               Inl (e, save_tasks (s\<lparr>tasks := concat_frames (tasks s) (new_task d p)\<rparr>)
                         \<lparr>model := m\<rparr>))"
    by (intro add_task_fit) (simp_all add: task_table_def)
next
  assume h: "task_table (tasks s) \<and> list_all (\<lambda>r. list_all is_Str (snd r)) (rows (tasks s))
        \<and> analyzer L d \<noteq> []"
  let ?X = "map (\<lambda>r. snd r ! 0) (rows (tasks s)) @ [Str d]"
  let ?y = "map (\<lambda>r. snd r ! 1) (rows (tasks s)) @ [Str p]"
  from h have two: "length (snd r) = 2" and strs: "list_all is_Str (snd r)"
    if "r \<in> set (rows (tasks s))" for r
    using that by (simp_all add: task_table_def list_all_iff)
  have "is_Str (snd r ! 0)" "is_Str (snd r ! 1)" if "r \<in> set (rows (tasks s))" for r
    using two [OF that] strs [OF that] by (simp_all add: list_all_length)
  then have X: "list_all is_Str ?X" and y: "list_all is_Str ?y"
    by (simp_all add: list_all_iff)
  have v: "concat (map (analyzer L \<circ> the_Str) ?X) \<noteq> []"
    using h by simp
  have m: "map the_Str ?X = map (\<lambda>r. the_Str (snd r ! 0)) (rows (tasks s)) @ [d]"
    by simp
  from h have "add_task L s d p =
          (case fit L ?X ?y of
             Inr m \<Rightarrow>
               Inr (save_tasks (s\<lparr>tasks := concat_frames (tasks s) (new_task d p)\<rparr>)
                      \<lparr>model := m\<rparr>)
           | Inl (e, m) \<Rightarrow>
               Inl (e, save_tasks (s\<lparr>tasks := concat_frames (tasks s) (new_task d p)\<rparr>)
                         \<lparr>model := m\<rparr>))"
    by (intro add_task_fit) (simp_all add: task_table_def)
  then show "add_task L s d p =
          Inr (save_tasks (s\<lparr>tasks := concat_frames (tasks s) (new_task d p)\<rparr>)
                 \<lparr>model := Fitted (map (\<lambda>r. the_Str (snd r ! 0)) (rows (tasks s)) @ [d])
                                  (map (\<lambda>r. snd r ! 1) (rows (tasks s)) @ [Str p])\<rparr>)"
    unfolding fit_text [OF X y v] m by simp
qed

theorem remove_keeps_model_add_retrains_witness:
  "task_table (tasks two_tasks)
   \<and> list_all (\<lambda>r. list_all is_Str (snd r)) (rows (tasks two_tasks))
   \<and> analyzer demo ''call bank'' \<noteq> []
   \<and> add_task demo two_tasks ''call bank'' ''Medium'' =
       Inr \<lparr>tasks = \<lparr>columns = [''description'', ''priority''],
                      rows = [(0, [Str ''buy milk'', Str ''Low'']),
                              (1, [Str ''write report'', Str ''High'']),
                              (2, [Str ''call bank'', Str ''Medium''])]\<rparr>,
            model = Fitted [''buy milk'', ''write report'', ''call bank'']
                      [Str ''Low'', Str ''High'', Str ''Medium''],
            tasks_csv = Some [[''description'', ''priority''], [''buy milk'', ''Low''],
                              [''write report'', ''High''], [''call bank'', ''Medium'']]\<rparr>
   \<and> model (state_of (remove_task two_tasks ''buy milk'')) = model two_tasks"
proof -
  have h: "task_table (tasks two_tasks)
           \<and> list_all (\<lambda>r. list_all is_Str (snd r)) (rows (tasks two_tasks))
           \<and> analyzer demo ''call bank'' \<noteq> []"
    by (simp add: task_table_def two_tasks_def demo_def)
  have e: "save_tasks (two_tasks\<lparr>tasks := concat_frames (tasks two_tasks)
                                          (new_task ''call bank'' ''Medium'')\<rparr>)
             \<lparr>model := Fitted (map (\<lambda>r. the_Str (snd r ! 0)) (rows (tasks two_tasks))
                                @ [''call bank''])
                              (map (\<lambda>r. snd r ! 1) (rows (tasks two_tasks)) @ [Str ''Medium''])\<rparr>
           = \<lparr>tasks = \<lparr>columns = [''description'', ''priority''],
                      rows = [(0, [Str ''buy milk'', Str ''Low'']),
                              (1, [Str ''write report'', Str ''High'']),
                              (2, [Str ''call bank'', Str ''Medium''])]\<rparr>,
            model = Fitted [''buy milk'', ''write report'', ''call bank'']
                      [Str ''Low'', Str ''High'', Str ''Medium''],
            tasks_csv = Some [[''description'', ''priority''], [''buy milk'', ''Low''],
                              [''write report'', ''High''], [''call bank'', ''Medium'']]\<rparr>"
    by (simp add: save_tasks_def concat_frames_def new_task_def relay_def two_tasks_def Let_def
        to_csv_def line_records_def skipped_def quoted_def upt_rec)
  from remove_keeps_model_add_retrains
         [where s = two_tasks and L = demo and d = "''call bank''" and p = "''Medium''"] h
  have "add_task demo two_tasks ''call bank'' ''Medium'' =
          Inr (save_tasks (two_tasks\<lparr>tasks := concat_frames (tasks two_tasks)
                                          (new_task ''call bank'' ''Medium'')\<rparr>)
             \<lparr>model := Fitted (map (\<lambda>r. the_Str (snd r ! 0)) (rows (tasks two_tasks))
                                @ [''call bank''])
                              (map (\<lambda>r. snd r ! 1) (rows (tasks two_tasks)) @ [Str ''Medium''])\<rparr>)"
    by blast
  moreover from remove_keeps_model_add_retrains
         [where s = two_tasks and L = demo and d = "''buy milk''" and p = "''Medium''"]
  have "model (state_of (remove_task two_tasks ''buy milk'')) = model two_tasks"
    by blast
  ultimately show ?thesis
    using h e by simp
qed

section \<open>prioritize_tasks\<close>

text \<open>
  C4. On a table whose priority cells are strings, \<^verbatim>\<open>prioritize_tasks\<close> returns; the
  table has the same columns and the same rows, rearranged so that the priority
  strings are in ascending lexicographic order, whatever the library does with equal
  keys; the file holds the sorted table and the model is untouched. In that order
  \<^verbatim>\<open>High\<close> is before \<^verbatim>\<open>Low\<close> and \<^verbatim>\<open>Low\<close> before \<^verbatim>\<open>Medium\<close>: the order is not one of
  severity.
\<close>

theorem prioritize_tasks_sorts_by_priority_string:
  assumes "position ''priority'' (columns (tasks s)) = Some i"
      and "list_all (\<lambda>r. is_Str (snd r ! i)) (rows (tasks s))"
  shows "\<exists>s'. prioritize_tasks L s = Inr s'
           \<and> columns (tasks s') = columns (tasks s)
           \<and> mset (rows (tasks s')) = mset (rows (tasks s))
           \<and> sorted (map (\<lambda>r. the_Str (snd r ! i)) (rows (tasks s')))
           \<and> tasks_csv s' = Some (to_csv (tasks s'))
           \<and> model s' = model s
           \<and> (''High'' :: string) < ''Low'' \<and> (''Low'' :: string) < ''Medium''"
proof -
  let ?rs = "sort_key (\<lambda>r. sort_rank (snd r ! i)) (sort_key (\<lambda>r. tie_rank L (fst r)) (rows (tasks s)))"
  have sv: "sort_values (tie_rank L) (tasks s) ''priority'' = Inr ((tasks s)\<lparr>rows := ?rs\<rparr>)"
    using assms all_Str_not_mixed [OF assms(2)] by (simp add: sort_values_def)
  have m: "mset ?rs = mset (rows (tasks s))"
    by simp
  then have "set ?rs = set (rows (tasks s))"
    by (rule mset_eq_setD)
  with assms(2) have "list_all (\<lambda>r. is_Str (snd r ! i)) ?rs"
    by (simp only: list_all_iff)
  moreover have "sorted (map (\<lambda>r. sort_rank (snd r ! i)) ?rs)"
    by (rule sorted_sort_key)
  ultimately have "sorted (map (\<lambda>r. the_Str (snd r ! i)) ?rs)"
    by (rule sorted_Str_keys)
  moreover have "(''High'' :: string) < ''Low''" "(''Low'' :: string) < ''Medium''"
    by (simp_all add: less_char_def)
  ultimately show ?thesis
    using m by (simp add: prioritize_tasks_def sv save_tasks_def)
qed

theorem prioritize_tasks_sorts_by_priority_string_witness:
  "position ''priority'' (columns (tasks three_tasks)) = Some 1
   \<and> list_all (\<lambda>r. is_Str (snd r ! 1)) (rows (tasks three_tasks))
   \<and> (\<exists>s'. prioritize_tasks demo three_tasks = Inr s'
          \<and> sorted (map (\<lambda>r. the_Str (snd r ! 1)) (rows (tasks s'))))
   \<and> map snd (rows (tasks (state_of (prioritize_tasks demo three_tasks))))
       = [[Str ''buy milk'', Str ''High''], [Str ''write report'', Str ''Low''],
          [Str ''buy milk'', Str ''Medium'']]"
proof -
  have h: "position ''priority'' (columns (tasks three_tasks)) = Some 1"
    "list_all (\<lambda>r. is_Str (snd r ! 1)) (rows (tasks three_tasks))"
    by (simp_all add: three_tasks_def)
  have e: "map snd (rows (tasks (state_of (prioritize_tasks demo three_tasks))))
       = [[Str ''buy milk'', Str ''High''], [Str ''write report'', Str ''Low''],
          [Str ''buy milk'', Str ''Medium'']]"
    by (simp add: prioritize_tasks_def sort_values_def three_tasks_def demo_def save_tasks_def
        less_eq_prod_def less_char_def less_eq_char_def)
  from prioritize_tasks_sorts_by_priority_string [OF h, of demo]
  show ?thesis using h e by blast
qed

section \<open>Starting without a file\<close>

text \<open>
  C5. With no \<^verbatim>\<open>tasks.csv\<close>, \<^verbatim>\<open>load_tasks\<close> raises nothing and leaves the empty table
  with the columns \<^verbatim>\<open>description\<close> and \<^verbatim>\<open>priority\<close>; an empty file, by contrast, is an
  EmptyDataError that nothing catches. But starting without a file is an error all the
  same: \<^verbatim>\<open>__init__\<close> goes on to \<^verbatim>\<open>train_model\<close>, and fitting the pipeline on no
  documents raises ValueError, for every analyzer and classifier.
\<close>

theorem init_without_file_raises:
  "load_tasks L \<lparr>tasks = DataFrame [''description'', ''priority''], model = Unfitted,
                  tasks_csv = None\<rparr>
     = Inr \<lparr>tasks = \<lparr>columns = [''description'', ''priority''], rows = []\<rparr>,
            model = Unfitted, tasks_csv = None\<rparr>
   \<and> init L None
     = Inl (ValueError, \<lparr>tasks = \<lparr>columns = [''description'', ''priority''], rows = []\<rparr>,
                         model = Unfitted, tasks_csv = None\<rparr>)
   \<and> init L (Some [])
     = Inl (EmptyDataError, \<lparr>tasks = \<lparr>columns = [''description'', ''priority''], rows = []\<rparr>,
                         model = Unfitted, tasks_csv = Some []\<rparr>)"
  by (simp add: init_def load_tasks_def read_csv_def DataFrame_def Let_def train_model_def
      getitem_def fit_def)

section \<open>Saving and loading\<close>

text \<open>
  C6. Saving the table and loading the file again is to give the same table back. It
  does not when a description is the empty string: the writer puts an empty field,
  the parser reads an empty field as the missing value, and the table that comes back
  has \<^verbatim>\<open>nan\<close> where the description was. Nor can the program be started on the file
  it has written: \<^verbatim>\<open>__init__\<close> loads it and the fit raises ValueError on the missing
  description.
\<close>

theorem save_then_load_loses_empty_description:
  "load_tasks demo
     (save_tasks \<lparr>tasks = \<lparr>columns = [''description'', ''priority''],
                            rows = [(0, [Str [], Str ''High''])]\<rparr>,
                  model = Unfitted, tasks_csv = None\<rparr>)
   = Inr \<lparr>tasks = \<lparr>columns = [''description'', ''priority''],
                   rows = [(0, [NaN, Str ''High''])]\<rparr>,
          model = Unfitted,
          tasks_csv = Some [[''description'', ''priority''], [[], ''High'']]\<rparr>
   \<and> [NaN, Str ''High''] \<noteq> [Str [], Str ''High'']
   \<and> init demo (Some [[''description'', ''priority''], [[], ''High'']])
     = Inl (ValueError,
            \<lparr>tasks = \<lparr>columns = [''description'', ''priority''],
                      rows = [(0, [NaN, Str ''High''])]\<rparr>,
             model = Unfitted,
             tasks_csv = Some [[''description'', ''priority''], [[], ''High'']]\<rparr>)"
  by (simp add: load_tasks_def save_tasks_def read_csv_def to_csv_def line_records_def
      skipped_def quoted_def Let_def pad_def infer_def demo_def na_values_def upt_rec
      init_def DataFrame_def train_model_def getitem_def fit_def)

text \<open>
  A description with a carriage return in it does not come back either, where the
  writer leaves the carriage return bare: the row is read as two records, the first
  of them short.
\<close>

lemma save_then_load_splits_at_carriage_return:
  "load_tasks demo
     (save_tasks \<lparr>tasks = \<lparr>columns = [''description'', ''priority''],
                            rows = [(0, [Str [CHR ''a'', CHR 0x0D, CHR ''b''], Str ''High''])]\<rparr>,
                  model = Unfitted, tasks_csv = None\<rparr>)
   = Inr \<lparr>tasks = \<lparr>columns = [''description'', ''priority''],
                   rows = [(0, [Str ''a'', NaN]), (1, [Str ''b'', Str ''High''])]\<rparr>,
          model = Unfitted,
          tasks_csv = Some [[''description'', ''priority''], [''a''], [''b'', ''High'']]\<rparr>"
  by (simp add: load_tasks_def save_tasks_def read_csv_def to_csv_def line_records_def
      skipped_def quoted_def Let_def pad_def infer_def demo_def na_values_def upt_rec)

section \<open>add_task\<close>

text \<open>
  C7. On a task table, for any description and any priority (nothing is checked, a
  repeated description included), \<^verbatim>\<open>add_task\<close> leaves the table with the same two
  columns and with the old rows, cells and order unchanged, followed by one new row
  holding the two strings; the labels run from 0. This is the table whether the
  retraining that follows returns or raises, and \<^verbatim>\<open>list_tasks\<close> then prints it.
\<close>

theorem add_task_appends_one_row:
  assumes "columns (tasks s) = [''description'', ''priority'']"
      and "list_all (\<lambda>r. length (snd r) = 2) (rows (tasks s))"
  shows "tasks (state_of (add_task L s d p)) =
           \<lparr>columns = [''description'', ''priority''],
            rows = zip [0..<Suc (length (rows (tasks s)))]
                       (map snd (rows (tasks s)) @ [[Str d, Str p]])\<rparr>
         \<and> list_tasks (state_of (add_task L s d p)) =
             [PrintFrame \<lparr>columns = [''description'', ''priority''],
                rows = zip [0..<Suc (length (rows (tasks s)))]
                           (map snd (rows (tasks s)) @ [[Str d, Str p]])\<rparr>]"
proof -
  have "zip [0..<Suc (length (rows (tasks s)))] (map snd (rows (tasks s)) @ [[Str d, Str p]]) \<noteq> []"
    by (simp add: upt_rec)
  then show ?thesis
    unfolding add_task_tasks concat_new_task [OF assms] list_tasks_def df_empty_def
    by (simp del: upt_Suc)
qed

theorem add_task_appends_one_row_witness:
  "columns (tasks two_tasks) = [''description'', ''priority'']
   \<and> list_all (\<lambda>r. length (snd r) = 2) (rows (tasks two_tasks))
   \<and> tasks (state_of (add_task demo two_tasks ''buy milk'' ''urgent'')) =
        \<lparr>columns = [''description'', ''priority''],
         rows = [(0, [Str ''buy milk'', Str ''Low'']), (1, [Str ''write report'', Str ''High'']),
                 (2, [Str ''buy milk'', Str ''urgent''])]\<rparr>"
proof -
  have h: "columns (tasks two_tasks) = [''description'', ''priority'']"
    "list_all (\<lambda>r. length (snd r) = 2) (rows (tasks two_tasks))"
    by (simp_all add: two_tasks_def)
  show ?thesis
    using h add_task_appends_one_row [OF h, of demo "''buy milk''" "''urgent''"]
    by (simp add: two_tasks_def upt_rec)
qed

section \<open>The menu's add flow\<close>

text \<open>
  C8. In the menu, after choice 1, a description and a priority whose capitalization
  is not \<^verbatim>\<open>Low\<close>, \<^verbatim>\<open>Medium\<close> or \<^verbatim>\<open>High\<close>, the program writes the two prompts and the
  message about the invalid priority and goes round the loop again in the state it
  was in: table, model and file are unchanged and the rest of the input is served as
  it would have been.
\<close>

theorem invalid_priority_is_reported_and_skipped:
  assumes "capitalize typed \<notin> {''Low'', ''Medium'', ''High''}"
  shows "main_menu L seed k s (''1'' # description # typed # rest) =
           after (menu @ [Prompt ''Enter task description: '',
                          Prompt ''Enter task priority (Low/Medium/High): '',
                          Print ''Invalid priority! Please enter Low, Medium, or High.''])
                 (main_menu L seed (Suc k) s rest)"
  using assms by (simp add: Let_def)

theorem invalid_priority_is_reported_and_skipped_witness:
  "capitalize ''urgent'' \<notin> {''Low'', ''Medium'', ''High''}
   \<and> main_menu demo (\<lambda>k. k) 0 two_tasks [''1'', ''call bank'', ''urgent'', ''6''] =
       (menu @ [Prompt ''Enter task description: '',
                Prompt ''Enter task priority (Low/Medium/High): '',
                Print ''Invalid priority! Please enter Low, Medium, or High.'']
             @ menu @ [Print ''Goodbye!''],
        Inr two_tasks)"
proof -
  have h: "capitalize ''urgent'' \<notin> {''Low'', ''Medium'', ''High''}"
    by (simp add: upper_def lower_def)
  show ?thesis
    using h invalid_priority_is_reported_and_skipped
              [OF h, of demo "\<lambda>k. k" 0 two_tasks "''call bank''" "[''6'']"]
    by (simp add: after_def)
qed

section \<open>The two columns\<close>

text \<open>
  C10. If the table has exactly the columns \<^verbatim>\<open>description\<close> and \<^verbatim>\<open>priority\<close> (and so
  two cells in every row), it still has after \<^verbatim>\<open>add_task\<close>, after \<^verbatim>\<open>remove_task\<close> and
  after \<^verbatim>\<open>prioritize_tasks\<close>, whether the call returns or raises: none of them adds,
  drops or renames a column.
\<close>

theorem mutations_keep_the_two_columns:
  assumes "task_table (tasks s)"
  shows "task_table (tasks (state_of (add_task L s d p)))
       \<and> task_table (tasks (state_of (remove_task s d)))
       \<and> task_table (tasks (state_of (prioritize_tasks L s)))"
proof -
  from assms have c: "columns (tasks s) = [''description'', ''priority'']"
    and r: "list_all (\<lambda>r. length (snd r) = 2) (rows (tasks s))"
    by (simp_all add: task_table_def)
  have "task_table (tasks (state_of (add_task L s d p)))"
    unfolding add_task_tasks concat_new_task [OF c r] using r
    by (auto simp add: task_table_def list_all_iff del: upt_Suc dest!: set_zip_rightD)
  moreover have "task_table (tasks (state_of (remove_task s d)))"
    using remove_task_columns [of s d] c r by (auto simp add: task_table_def list_all_iff)
  moreover have "task_table (tasks (state_of (prioritize_tasks L s)))"
    using prioritize_tasks_columns [of L s] c r by (auto simp add: task_table_def list_all_iff)
  ultimately show ?thesis by simp
qed

theorem mutations_keep_the_two_columns_witness:
  "task_table (tasks two_tasks)
   \<and> task_table (tasks (state_of (add_task demo two_tasks ''buy milk'' ''Low'')))
   \<and> task_table (tasks (state_of (remove_task two_tasks ''buy milk'')))
   \<and> task_table (tasks (state_of (prioritize_tasks demo two_tasks)))"
proof -
  have h: "task_table (tasks two_tasks)"
    by (simp add: task_table_def two_tasks_def)
  show ?thesis
    using h mutations_keep_the_two_columns
              [OF h, where L = demo and d = "''buy milk''" and p = "''Low''"]
    by simp
qed

end
